theory Spec2Isabelle
  imports Main "HOL-Library.Word"
begin

section \<open>Pixel types and the PixelHelper trait\<close>

text \<open>
  The filter is a class template over the image types. A pixel type either has no
  member \<open>Length\<close> (\<open>unsigned char\<close>, \<open>float\<close>, ...) or it is a fixed-size array
  class that declares \<open>static constexpr unsigned int Length\<close> and \<open>operator[]\<close>
  (\<open>itk::RGBPixel\<close>, \<open>itk::Vector\<close>, ...). A pixel is modelled with one constructor
  for each of the two kinds; for an array pixel the declared \<open>Length\<close> is the
  number of its components.
\<close>

datatype 'v pixel = Scalar 'v | Fixed "'v list"

text \<open>
  \<open>decltype( TPixelType::Length )\<close>: well-formed exactly for the array classes.
  \<open>None\<close> stands for the substitution failure.
\<close>

fun declared_Length :: "'v pixel \<Rightarrow> nat option" where
  "declared_Length (Scalar v) = None"
| "declared_Length (Fixed xs) = Some (length xs)"

text \<open>
  \<^verbatim>\<open>
  template < typename TSizeValueType, typename TPixelType, typename = void >
  struct PixelHelper
    {
    static constexpr TSizeValueType Length = 1;
    static TPixelType &value( TPixelType &pixel, unsigned int color ) { return pixel; }
    static const TPixelType &value( const TPixelType &pixel, unsigned int color ) { return pixel; }
    };

  template < typename TSizeValueType, typename TPixelType >
  struct PixelHelper< TSizeValueType, TPixelType, void_t< decltype( TPixelType::Length ) > >
    {
    static constexpr TSizeValueType Length = TPixelType::Length;
    static typename TPixelType::ValueType &value( TPixelType &pixel, unsigned int color ) { return pixel[color]; }
    static const typename TPixelType::ValueType &value( const TPixelType &pixel, unsigned int color ) { return pixel[color]; }
    };
  \<close>
  The partial specialization is chosen when \<open>TPixelType::Length\<close> is well-formed,
  the primary template otherwise. \<open>TSizeValueType\<close> is the unsigned size type of
  the image; the number of components of an array class fits it, so \<open>Length\<close> is a
  natural number here.
\<close>

definition PixelHelper_Length :: "'v pixel \<Rightarrow> nat" where
  "PixelHelper_Length p = (case declared_Length p of None \<Rightarrow> 1 | Some n \<Rightarrow> n)"

text \<open>
  The \<open>const\<close> overload of \<open>value\<close>, read through the returned reference. The
  argument \<open>color\<close> is an \<open>unsigned int\<close>. The array classes do not check the index
  of \<open>operator[]\<close>: an index outside the array has no defined result in the source,
  which is the value \<open>None\<close> here.
\<close>

fun PixelHelper_value :: "'v pixel \<Rightarrow> 32 word \<Rightarrow> 'v option" where
  "PixelHelper_value (Scalar v) color = Some v"
| "PixelHelper_value (Fixed xs) color =
     (if unat color < length xs then Some (xs ! unat color) else None)"

text \<open>
  The non-\<open>const\<close> overload of \<open>value\<close> returns a reference that the caller assigns
  through: \<open>value( pixel, color ) = x\<close>. The pixel after the assignment:
\<close>

fun PixelHelper_value_assign :: "'v pixel \<Rightarrow> 32 word \<Rightarrow> 'v \<Rightarrow> 'v pixel option" where
  "PixelHelper_value_assign (Scalar v) color x = Some (Scalar x)"
| "PixelHelper_value_assign (Fixed xs) color x =
     (if unat color < length xs then Some (Fixed (xs[unat color := x])) else None)"

text \<open>
  \<^verbatim>\<open>
  static constexpr InputSizeValueType InputImageLength = InputPixelHelper::Length;
  static constexpr OutputSizeValueType OutputImageLength = OutputPixelHelper::Length;
  \<close>
\<close>

definition InputImageLength :: "'v pixel \<Rightarrow> nat" where
  "InputImageLength InputPixel = PixelHelper_Length InputPixel"

definition OutputImageLength :: "'v pixel \<Rightarrow> nat" where
  "OutputImageLength OutputPixel = PixelHelper_Length OutputPixel"

section \<open>Constants of the algorithm\<close>

text \<open>
  \<^verbatim>\<open>
  static constexpr InputSizeValueType NumberOfStains {2};
  private:
  static constexpr InputSizeValueType maxNumberOfIterations {0};
  \<close>
  Both are compile-time constants of the class: no member function, and none of the
  \<open>itkSetMacro\<close> setters (which exist for \<open>ColorIndexSuppressedByHematoxylin\<close> and
  \<open>ColorIndexSuppressedByEosin\<close> only), can change them.
\<close>

definition NumberOfStains :: nat where
  "NumberOfStains = 2"

definition maxNumberOfIterations :: nat where
  "maxNumberOfIterations = 0"

section \<open>The multiplicative-update loop\<close>

datatype error = NotNormalizable

datatype solver_mode = Euclidean | Divergence

text \<open>
  Modelled from the spec: the iteration loop of the Multiplicative-Update Solver. The
  header declares \<open>VirtanenEuclidean\<close>, \<open>VirtanenKLDivergence\<close> and \<open>ImageToNMF\<close>;
  their bodies are in \<open>itkStructurePreservingColorNormalizationFilter.hxx\<close>, which
  is not among the sources. The spec (4.6, 9): the solver "iterates up to a fixed
  maximum iteration count; a configured count of zero means seed only, no
  refinement", and the loop "has no early-convergence check (runs exactly N times
  if N>0)". One application of the multiplicative update rule is the parameter
  \<open>update\<close>; the second component of the state counts the applications.
\<close>

fun iterate_update :: "('f \<Rightarrow> 'f) \<Rightarrow> nat \<Rightarrow> 'f \<times> nat \<Rightarrow> 'f \<times> nat" where
  "iterate_update update 0 s = s"
| "iterate_update update (Suc n) (f, applications) =
     iterate_update update n (update f, Suc applications)"

text \<open>
  Modelled from the spec: the solver in its two modes (4.6), "Euclidean" and
  "Divergence", run for \<open>maxNumberOfIterations\<close> iterations from the seed. The update
  rules of the two modes are the parameters \<open>euclidean_update\<close> and
  \<open>divergence_update\<close>.
\<close>

definition MultiplicativeUpdateSolver ::
  "solver_mode \<Rightarrow> ('f \<Rightarrow> 'f) \<Rightarrow> ('f \<Rightarrow> 'f) \<Rightarrow> 'f \<Rightarrow> 'f \<times> nat" where
  "MultiplicativeUpdateSolver mode euclidean_update divergence_update seed =
     iterate_update
       (case mode of Euclidean \<Rightarrow> euclidean_update | Divergence \<Rightarrow> divergence_update)
       maxNumberOfIterations (seed, 0)"

text \<open>
  Modelled from the spec: the control flow of \<open>ImageToNMF\<close> (2): the stages up to and
  including the NMF Seeder give the seed or fail (the header's \<open>int\<close> status of
  \<open>DistinguishersToNMFSeeds\<close> and \<open>ImageToNMF\<close>), then the solver refines the seed.
  The seeding stages are the parameter \<open>seeds\<close>.
\<close>

definition ImageToNMF ::
  "('img \<Rightarrow> error + 'f) \<Rightarrow> solver_mode \<Rightarrow> ('f \<Rightarrow> 'f) \<Rightarrow> ('f \<Rightarrow> 'f) \<Rightarrow> 'img
     \<Rightarrow> error + 'f \<times> nat" where
  "ImageToNMF seeds mode euclidean_update divergence_update img =
     (case seeds img of
        Inl e \<Rightarrow> Inl e
      | Inr seed \<Rightarrow>
          Inr (MultiplicativeUpdateSolver mode euclidean_update divergence_update seed))"

section \<open>Properties of PixelHelper\<close>

lemma PixelHelper_Length_Scalar: "PixelHelper_Length (Scalar v) = 1"
  by (simp add: PixelHelper_Length_def)

lemma PixelHelper_Length_Fixed: "PixelHelper_Length (Fixed xs) = length xs"
  by (simp add: PixelHelper_Length_def)

lemma declared_Length_None_iff: "declared_Length p = None \<longleftrightarrow> (\<exists>v. p = Scalar v)"
  by (cases p) simp_all

lemma declared_Length_Some_iff: "declared_Length p = Some n \<longleftrightarrow> (\<exists>xs. p = Fixed xs \<and> length xs = n)"
  by (cases p) auto

text \<open>Reading a channel back after assigning through the reference gives the assigned value.\<close>

lemma PixelHelper_value_after_assign:
  "PixelHelper_value_assign p color x = Some p' \<Longrightarrow> PixelHelper_value p' color = Some x"
  by (cases p) (auto split: if_splits)

text \<open>Assigning through the reference keeps the kind of the pixel and its length.\<close>

lemma PixelHelper_Length_after_assign:
  "PixelHelper_value_assign p color x = Some p' \<Longrightarrow> PixelHelper_Length p' = PixelHelper_Length p"
  by (cases p) (auto simp: PixelHelper_Length_def split: if_splits)

text \<open>
  Claim C10. A pixel type without a member \<open>Length\<close> has one channel
  (\<open>PixelHelper::Length\<close>, hence \<open>InputImageLength\<close> and \<open>OutputImageLength\<close>, is 1),
  and \<open>value\<close> returns the whole pixel whatever the color index is. A pixel type with a
  member \<open>Length\<close> has \<open>TPixelType::Length\<close> channels, and \<open>value\<close> returns the
  component of the pixel at the color index, for every index inside the pixel.
\<close>

theorem PixelHelper_by_pixel_kind:
  "(declared_Length p = None \<longrightarrow>
      PixelHelper_Length p = 1 \<and> InputImageLength p = 1 \<and> OutputImageLength p = 1 \<and>
      (\<exists>v. p = Scalar v \<and> (\<forall>color. PixelHelper_value p color = Some v))) \<and>
   (\<forall>n. declared_Length p = Some n \<longrightarrow>
      PixelHelper_Length p = n \<and> InputImageLength p = n \<and> OutputImageLength p = n \<and>
      (\<exists>xs. p = Fixed xs \<and>
         (\<forall>color. unat color < n \<longrightarrow> PixelHelper_value p color = Some (xs ! unat color))))"
proof (cases p)
  case (Scalar v)
  have "PixelHelper_Length p = 1"
    using Scalar by (simp add: PixelHelper_Length_Scalar)
  moreover have "\<forall>color. PixelHelper_value p color = Some v"
    using Scalar by simp
  ultimately show ?thesis
    using Scalar by (simp add: InputImageLength_def OutputImageLength_def)
next
  case (Fixed xs)
  have "PixelHelper_Length p = length xs"
    using Fixed by (simp add: PixelHelper_Length_Fixed)
  moreover have "\<forall>color. unat color < length xs \<longrightarrow>
      PixelHelper_value p color = Some (xs ! unat color)"
    using Fixed by simp
  ultimately show ?thesis
    using Fixed by (simp add: InputImageLength_def OutputImageLength_def)
qed

theorem PixelHelper_by_pixel_kind_witness:
  "declared_Length (Scalar (200 :: 8 word)) = None \<and>
   PixelHelper_Length (Scalar (200 :: 8 word)) = 1 \<and>
   PixelHelper_value (Scalar (200 :: 8 word)) 2 = Some 200 \<and>
   declared_Length (Fixed [10, 20, 30 :: 8 word]) = Some 3 \<and>
   PixelHelper_Length (Fixed [10, 20, 30 :: 8 word]) = 3 \<and>
   unat (2 :: 32 word) < 3 \<and>
   PixelHelper_value (Fixed [10, 20, 30 :: 8 word]) 2 = Some 30"
  using PixelHelper_by_pixel_kind [of "Scalar (200 :: 8 word)"]
    PixelHelper_by_pixel_kind [of "Fixed [10, 20, 30 :: 8 word]"]
  by simp

section \<open>Properties of the solver loop\<close>

text \<open>For any bound, the loop applies the update rule once per iteration, and counts it.\<close>

lemma iterate_update_funpow:
  "iterate_update update n (f, k) = ((update ^^ n) f, k + n)"
  by (induction n arbitrary: f k) (simp_all add: funpow_swap1)

text \<open>
  Claim C9. The iteration bound is the constant 0, so the solver, in either mode and
  for any update rules, applies no update and returns the seed; the factorization
  that \<open>ImageToNMF\<close> returns for an image is the seed of that image (and a failure of
  the seeding stages is returned as it is).
\<close>

theorem solver_performs_no_iteration:
  "maxNumberOfIterations = 0 \<and>
   MultiplicativeUpdateSolver mode euclidean_update divergence_update seed = (seed, 0) \<and>
   ImageToNMF seeds mode euclidean_update divergence_update img =
     (case seeds img of Inl e \<Rightarrow> Inl e | Inr seed' \<Rightarrow> Inr (seed', 0))"
  by (simp add: maxNumberOfIterations_def MultiplicativeUpdateSolver_def ImageToNMF_def
      split: sum.splits)

end
